theory Spec2Isabelle
  imports Main "HOL-Library.Sublist" "HOL-Library.Multiset"
begin

section \<open>The todo list: REST backend and browser client\<close>

text \<open>
  The backend is an express application over one mongoose model; the client is a script
  with three classes (\<open>TodoItemFormatter\<close>, \<open>TodoManager\<close>, \<open>UIManager\<close>).
  Both are embedded as pure functions with explicit state:
  \<^item> the collection of the store is the list of its documents, in insertion order;
  \<^item> what the outside world decides for one call (the identifier and the timestamp the
    store library assigns to a new document, whether the store library carries out its
    calls or rejects them, whether the network delivers the request) is an \<open>env\<close>
    value that the call receives;
  \<^item> a rejected promise is the \<open>Inl\<close> of a sum, and every \<open>catch\<close> of the
    source is a branch of the model;
  \<^item> each \<open>async\<close> method runs to completion before the next one starts (one call in
    flight); interleavings of concurrent calls are not modelled.

  A \<open>char\<close> stands for one code unit of a JavaScript string, so \<open>length\<close> is
  \<open>.length\<close> and \<open>take 14\<close> is \<open>.slice(0, 14)\<close>; code units above 255 are
  outside the model.
\<close>

subsection \<open>Records\<close>

text \<open>
  The JSON shape of a record: identifier, task, due date, completed flag and creation
  timestamp (milliseconds). The due date is optional: \<open>None\<close> is a document without
  the field.
\<close>

record todo =
  todo_id :: string
  task :: string
  dueDate :: "string option"
  completed :: bool
  createdAt :: int

text \<open>
  \<open>req.body\<close> after \<open>express.json()\<close>: any subset of the three fields;
  \<open>None\<close> is \<open>undefined\<close>.
\<close>

record req_body =
  body_task :: "string option"
  body_completed :: "bool option"
  body_dueDate :: "string option"

text \<open>The environment of one call.\<close>

record env =
  new_id :: string
  now :: int
  db_up :: bool
  net_up :: bool

datatype store_error = StorageUnavailable | ValidationError | CastError

datatype payload =
  Todos "todo list"
  | Doc todo
  | Message string
  | ErrMessage store_error

type_synonym response = "nat \<times> payload"

subsection \<open>The mongoose model\<close>

text \<open>
  \<open>Todo.find().sort({ createdAt: -1 })\<close>: every document, newest first. The store
  does not say in which order it returns documents of equal timestamp; here they keep
  their insertion order, and nothing below depends on it.
\<close>

definition find_sorted :: "env \<Rightarrow> todo list \<Rightarrow> store_error + todo list" where
  "find_sorted e ds =
     (if db_up e then Inr (sort_key (\<lambda>d. - createdAt d) ds) else Inl StorageUnavailable)"

text \<open>
  Identifiers are the store's object identifiers: 24 hexadecimal digits, written in
  lower case in the JSON of a record. A query by identifier first casts the string of the
  request; the cast reads the digits in either case and rejects every other string, and
  the query is then rejected before it reaches the store. (This is the cast of the
  current store library; its older versions also read any string of 12 characters as an
  identifier.)
\<close>

definition is_hex_digit :: "char \<Rightarrow> bool" where
  "is_hex_digit c = (c \<in> set ''0123456789abcdefABCDEF'')"

definition hex_lower :: "char \<Rightarrow> char" where
  "hex_lower c =
     (if c = CHR ''A'' then CHR ''a''
      else if c = CHR ''B'' then CHR ''b''
      else if c = CHR ''C'' then CHR ''c''
      else if c = CHR ''D'' then CHR ''d''
      else if c = CHR ''E'' then CHR ''e''
      else if c = CHR ''F'' then CHR ''f''
      else c)"

definition castObjectId :: "string \<Rightarrow> string option" where
  "castObjectId i =
     (if length i = 24 \<and> list_all is_hex_digit i then Some (map hex_lower i) else None)"

text \<open>\<open>Todo.findById(id)\<close>: the document with this identifier, or \<open>null\<close>.\<close>

definition findById :: "env \<Rightarrow> string \<Rightarrow> todo list \<Rightarrow> store_error + todo option" where
  "findById e i ds =
     (case castObjectId i of
        None \<Rightarrow> Inl CastError
      | Some oid \<Rightarrow>
          if db_up e then Inr (find (\<lambda>d. todo_id d = oid) ds) else Inl StorageUnavailable)"

text \<open>
  Modelled from the spec: the schema of \<open>models/Todo\<close>, which is not among the sources.
  The spec's data model gives it: the task is required text, the due date is optional,
  the completed flag defaults to false, the identifier and the creation timestamp are
  assigned by the store. A required text is one that is there and is not the empty
  string. \<open>save()\<close> validates first and writes then, for a new document
  (\<open>new Todo({task, dueDate})\<close>) and for one that was read from the store alike.
\<close>

definition required :: "string option \<Rightarrow> bool" where
  "required v = (case v of None \<Rightarrow> False | Some s \<Rightarrow> s \<noteq> [])"

definition save_new ::
  "env \<Rightarrow> string option \<Rightarrow> string option \<Rightarrow> todo list \<Rightarrow> store_error + (todo \<times> todo list)" where
  "save_new e t dd ds =
     (case t of
        None \<Rightarrow> Inl ValidationError
      | Some txt \<Rightarrow>
          if \<not> required (Some txt) then Inl ValidationError
          else if db_up e then
            (let d = \<lparr>todo_id = new_id e, task = txt, dueDate = dd,
                      completed = False, createdAt = now e\<rparr>
             in Inr (d, ds @ [d]))
          else Inl StorageUnavailable)"

text \<open>
  Writing a document back validates it and then replaces the stored document that has
  its identifier.
\<close>

fun replace_doc :: "todo \<Rightarrow> todo list \<Rightarrow> todo list" where
  "replace_doc d [] = []"
| "replace_doc d (x # xs) = (if todo_id x = todo_id d then d # xs else x # replace_doc d xs)"

definition save :: "env \<Rightarrow> todo \<Rightarrow> todo list \<Rightarrow> store_error + (todo \<times> todo list)" where
  "save e d ds =
     (if \<not> required (Some (task d)) then Inl ValidationError
      else if db_up e then Inr (d, replace_doc d ds)
      else Inl StorageUnavailable)"

fun remove_doc :: "string \<Rightarrow> todo list \<Rightarrow> todo list" where
  "remove_doc i [] = []"
| "remove_doc i (x # xs) = (if todo_id x = i then xs else x # remove_doc i xs)"

text \<open>\<open>Todo.findByIdAndDelete(id)\<close>: the removed document, or \<open>null\<close>.\<close>

definition findByIdAndDelete ::
  "env \<Rightarrow> string \<Rightarrow> todo list \<Rightarrow> store_error + (todo option \<times> todo list)" where
  "findByIdAndDelete e i ds =
     (case castObjectId i of
        None \<Rightarrow> Inl CastError
      | Some oid \<Rightarrow>
          if db_up e then Inr (find (\<lambda>d. todo_id d = oid) ds, remove_doc oid ds)
          else Inl StorageUnavailable)"

text \<open>\<open>Todo.deleteMany({})\<close>.\<close>

definition deleteMany :: "env \<Rightarrow> todo list \<Rightarrow> store_error + todo list" where
  "deleteMany e ds = (if db_up e then Inr [] else Inl StorageUnavailable)"

subsection \<open>The routes\<close>

text \<open>Each handler maps the store to the response and the new store.\<close>

definition get_ping :: "todo list \<Rightarrow> response \<times> todo list" where
  "get_ping ds = ((200, Message ''pong''), ds)"

definition get_todos :: "env \<Rightarrow> todo list \<Rightarrow> response \<times> todo list" where
  "get_todos e ds =
     (case find_sorted e ds of
        Inr todos \<Rightarrow> ((200, Todos todos), ds)
      | Inl err \<Rightarrow> ((500, ErrMessage err), ds))"

definition post_todos :: "env \<Rightarrow> req_body \<Rightarrow> todo list \<Rightarrow> response \<times> todo list" where
  "post_todos e b ds =
     (case save_new e (body_task b) (body_dueDate b) ds of
        Inr (newTodo, ds') \<Rightarrow> ((201, Doc newTodo), ds')
      | Inl err \<Rightarrow> ((400, ErrMessage err), ds))"

definition put_todos_id :: "env \<Rightarrow> string \<Rightarrow> req_body \<Rightarrow> todo list \<Rightarrow> response \<times> todo list" where
  "put_todos_id e i b ds =
     (case findById e i ds of
        Inl err \<Rightarrow> ((400, ErrMessage err), ds)
      | Inr None \<Rightarrow> ((404, Message ''Todo not found''), ds)
      | Inr (Some todo0) \<Rightarrow>
          (let todo1 = (case body_task b of None \<Rightarrow> todo0 | Some t \<Rightarrow> todo0\<lparr>task := t\<rparr>);
               todo2 = (case body_completed b of None \<Rightarrow> todo1 | Some c \<Rightarrow> todo1\<lparr>completed := c\<rparr>);
               todo3 = (case body_dueDate b of None \<Rightarrow> todo2 | Some d \<Rightarrow> todo2\<lparr>dueDate := Some d\<rparr>)
           in case save e todo3 ds of
                Inr (updatedTodo, ds') \<Rightarrow> ((200, Doc updatedTodo), ds')
              | Inl err \<Rightarrow> ((400, ErrMessage err), ds)))"

definition delete_todos_id :: "env \<Rightarrow> string \<Rightarrow> todo list \<Rightarrow> response \<times> todo list" where
  "delete_todos_id e i ds =
     (case findByIdAndDelete e i ds of
        Inl err \<Rightarrow> ((500, ErrMessage err), ds)
      | Inr (None, ds') \<Rightarrow> ((404, Message ''Todo not found''), ds')
      | Inr (Some todo0, ds') \<Rightarrow> ((200, Message ''Todo deleted''), ds'))"

definition delete_todos :: "env \<Rightarrow> todo list \<Rightarrow> response \<times> todo list" where
  "delete_todos e ds =
     (case deleteMany e ds of
        Inr ds' \<Rightarrow> ((200, Message ''All todos deleted''), ds')
      | Inl err \<Rightarrow> ((500, ErrMessage err), ds))"

text \<open>
  The requests the routes answer. An identifier in a path is a path segment, so it is
  not empty.
\<close>

datatype request =
  GET_ping
  | GET_todos
  | POST_todos req_body
  | PUT_todos_id string req_body
  | DELETE_todos_id string
  | DELETE_todos

fun handle :: "env \<Rightarrow> request \<Rightarrow> todo list \<Rightarrow> response \<times> todo list" where
  "handle e GET_ping ds = get_ping ds"
| "handle e GET_todos ds = get_todos e ds"
| "handle e (POST_todos b) ds = post_todos e b ds"
| "handle e (PUT_todos_id i b) ds = put_todos_id e i b ds"
| "handle e (DELETE_todos_id i) ds = delete_todos_id e i ds"
| "handle e DELETE_todos ds = delete_todos e ds"

text \<open>A sequence of calls, each in its own environment, with the responses in order.\<close>

fun serve :: "(env \<times> request) list \<Rightarrow> todo list \<Rightarrow> response list \<times> todo list" where
  "serve [] ds = ([], ds)"
| "serve ((e, r) # rs) ds =
     (let (resp, ds1) = handle e r ds; (resps, ds2) = serve rs ds1 in (resp # resps, ds2))"

fun is_delete :: "request \<Rightarrow> bool" where
  "is_delete (DELETE_todos_id i) = True"
| "is_delete DELETE_todos = True"
| "is_delete r = False"

subsection \<open>TodoItemFormatter\<close>

definition formatTask :: "string \<Rightarrow> string" where
  "formatTask t = (if length t > 14 then take 14 t @ ''...'' else t)"

text \<open>\<open>dueDate || "No due date"\<close>: \<open>undefined\<close> and the empty string are falsy.\<close>

definition formatDueDate :: "string option \<Rightarrow> string" where
  "formatDueDate dd =
     (case dd of
        None \<Rightarrow> ''No due date''
      | Some s \<Rightarrow> if s = [] then ''No due date'' else s)"

definition formatStatus :: "bool \<Rightarrow> string" where
  "formatStatus c = (if c then ''Completed'' else ''Pending'')"

subsection \<open>TodoManager\<close>

text \<open>
  The manager's mutable field is the cached list \<open>this.todos\<close>. The world beyond the
  browser is the store of the backend and the sequence of requests sent so far.
\<close>

record TodoManager =
  todos :: "todo list"

record world =
  server :: "todo list"
  requests :: "request list"

datatype client_error =
  NetworkFailure
  | Failure string
  | UnexpectedBody

text \<open>
  \<open>fetch\<close>: the request is sent; the promise rejects when the network does not deliver
  it, and resolves with the response of the route otherwise.
\<close>

definition fetch :: "env \<Rightarrow> request \<Rightarrow> world \<Rightarrow> (client_error + response) \<times> world" where
  "fetch e r w =
     (let w1 = w\<lparr>requests := requests w @ [r]\<rparr>
      in if net_up e then
           (let (resp, ds) = handle e r (server w1) in (Inr resp, w1\<lparr>server := ds\<rparr>))
         else (Inl NetworkFailure, w1))"

text \<open>\<open>response.ok\<close>.\<close>

definition ok :: "response \<Rightarrow> bool" where
  "ok resp = (200 \<le> fst resp \<and> fst resp \<le> 299)"

text \<open>
  The identifier of a cached record, \<open>t._id || t.id\<close>: the records come from the
  store, whose JSON carries the identifier.
\<close>

fun findIndex :: "('a \<Rightarrow> bool) \<Rightarrow> 'a list \<Rightarrow> nat option" where
  "findIndex P [] = None"
| "findIndex P (x # xs) =
     (if P x then Some 0 else (case findIndex P xs of None \<Rightarrow> None | Some n \<Rightarrow> Some (Suc n)))"

definition fetchTodos ::
  "env \<Rightarrow> TodoManager \<Rightarrow> world \<Rightarrow> (client_error + todo list) \<times> TodoManager \<times> world" where
  "fetchTodos e m w =
     (case fetch e GET_todos w of
        (Inl err, w') \<Rightarrow> (Inl err, m, w')
      | (Inr resp, w') \<Rightarrow>
          if \<not> ok resp then (Inl (Failure ''Failed to fetch todos''), m, w')
          else (case snd resp of
                  Todos ts \<Rightarrow> (Inr ts, m\<lparr>todos := ts\<rparr>, w')
                | _ \<Rightarrow> (Inl UnexpectedBody, m, w')))"

definition addTodo ::
  "env \<Rightarrow> string \<Rightarrow> string option \<Rightarrow> TodoManager \<Rightarrow> world
     \<Rightarrow> (client_error + todo) \<times> TodoManager \<times> world" where
  "addTodo e t dd m w =
     (let todoData = \<lparr>body_task = Some (formatTask t), body_completed = None,
                       body_dueDate = Some (formatDueDate dd)\<rparr>
      in case fetch e (POST_todos todoData) w of
           (Inl err, w') \<Rightarrow> (Inl err, m, w')
         | (Inr resp, w') \<Rightarrow>
             if \<not> ok resp then (Inl (Failure ''Failed to add task''), m, w')
             else (case snd resp of
                     Doc newTodo \<Rightarrow> (Inr newTodo, m\<lparr>todos := newTodo # todos m\<rparr>, w')
                   | _ \<Rightarrow> (Inl UnexpectedBody, m, w')))"

definition editTodo ::
  "env \<Rightarrow> string \<Rightarrow> string \<Rightarrow> TodoManager \<Rightarrow> world
     \<Rightarrow> (client_error + todo) \<times> TodoManager \<times> world" where
  "editTodo e i updatedTask m w =
     (case fetch e (PUT_todos_id i \<lparr>body_task = Some updatedTask, body_completed = None,
                                     body_dueDate = None\<rparr>) w of
        (Inl err, w') \<Rightarrow> (Inl err, m, w')
      | (Inr resp, w') \<Rightarrow>
          if \<not> ok resp then (Inl (Failure ''Failed to update task''), m, w')
          else (case snd resp of
                  Doc updatedTodo \<Rightarrow>
                    (case findIndex (\<lambda>t. todo_id t = i) (todos m) of
                       Some n \<Rightarrow> (Inr updatedTodo, m\<lparr>todos := (todos m)[n := updatedTodo]\<rparr>, w')
                     | None \<Rightarrow> (Inr updatedTodo, m, w'))
                | _ \<Rightarrow> (Inl UnexpectedBody, m, w')))"

definition deleteTodo ::
  "env \<Rightarrow> string \<Rightarrow> TodoManager \<Rightarrow> world \<Rightarrow> (client_error + unit) \<times> TodoManager \<times> world" where
  "deleteTodo e i m w =
     (case fetch e (DELETE_todos_id i) w of
        (Inl err, w') \<Rightarrow> (Inl err, m, w')
      | (Inr resp, w') \<Rightarrow>
          if \<not> ok resp then (Inl (Failure ''Failed to delete task''), m, w')
          else (Inr (), m\<lparr>todos := filter (\<lambda>t. todo_id t \<noteq> i) (todos m)\<rparr>, w'))"

definition toggleTodoStatus ::
  "env \<Rightarrow> string \<Rightarrow> TodoManager \<Rightarrow> world \<Rightarrow> (client_error + unit) \<times> TodoManager \<times> world" where
  "toggleTodoStatus e i m w =
     (case find (\<lambda>t. todo_id t = i) (todos m) of
        None \<Rightarrow> (Inr (), m, w)
      | Some todo0 \<Rightarrow>
          (case fetch e (PUT_todos_id i \<lparr>body_task = None,
                                          body_completed = Some (\<not> completed todo0),
                                          body_dueDate = None\<rparr>) w of
             (Inl err, w') \<Rightarrow> (Inl err, m, w')
           | (Inr resp, w') \<Rightarrow>
               if \<not> ok resp then (Inl (Failure ''Failed to toggle status''), m, w')
               else (case snd resp of
                       Doc updatedTodo \<Rightarrow>
                         (case findIndex (\<lambda>t. todo_id t = i) (todos m) of
                            Some n \<Rightarrow> (Inr (), m\<lparr>todos := (todos m)[n := updatedTodo]\<rparr>, w')
                          | None \<Rightarrow> (Inr (), m, w'))
                     | _ \<Rightarrow> (Inl UnexpectedBody, m, w'))))"

definition clearAllTodos ::
  "env \<Rightarrow> TodoManager \<Rightarrow> world \<Rightarrow> (client_error + unit) \<times> TodoManager \<times> world" where
  "clearAllTodos e m w =
     (case fetch e DELETE_todos w of
        (Inl err, w') \<Rightarrow> (Inl err, m, w')
      | (Inr resp, w') \<Rightarrow>
          if \<not> ok resp then (Inl (Failure ''Failed to clear tasks''), m, w')
          else (Inr (), m\<lparr>todos := []\<rparr>, w'))"

text \<open>
  \<open>filterTodos\<close> returns the view together with the manager as the call leaves it.
\<close>

definition filterTodos :: "string \<Rightarrow> TodoManager \<Rightarrow> todo list \<times> TodoManager" where
  "filterTodos status m =
     (if status = ''all'' then (todos m, m)
      else if status = ''pending'' then (filter (\<lambda>t. \<not> completed t) (todos m), m)
      else if status = ''completed'' then (filter (\<lambda>t. completed t) (todos m), m)
      else ([], m))"

subsection \<open>UIManager\<close>

text \<open>
  The page as the script sees it: the two inputs, the add button (its markup and its
  click listeners), the table body and the alert box. The alert's timer, which hides it
  after three seconds, is not modelled.
\<close>

datatype listener = HandleAddTodo | HandleUpdate string string

record row =
  row_id :: string
  row_task :: string
  row_dueDate :: string
  row_status :: string

datatype table_body = No_task_found | Rows "row list"

record UIManager =
  todoManager :: TodoManager
  taskInput :: string
  dateInput :: string
  addBtnHtml :: string
  addBtnClick :: "listener list"
  todosListBody :: table_body
  alertMessage :: "(string \<times> string) option"

definition is_space :: "char \<Rightarrow> bool" where
  "is_space c = (of_char c \<in> {9, 10, 11, 12, 13, 32, 160 :: nat})"

text \<open>\<open>String.prototype.trim\<close>: white space is removed at both ends.\<close>

definition trim :: "string \<Rightarrow> string" where
  "trim s = rev (dropWhile is_space (rev (dropWhile is_space s)))"

definition showAlertMessage :: "string \<Rightarrow> string \<Rightarrow> UIManager \<Rightarrow> UIManager" where
  "showAlertMessage message type u = u\<lparr>alertMessage := Some (message, type)\<rparr>"

definition displayTodos :: "todo list \<Rightarrow> UIManager \<Rightarrow> UIManager" where
  "displayTodos ts u =
     (if length ts = 0 then u\<lparr>todosListBody := No_task_found\<rparr>
      else u\<lparr>todosListBody :=
              Rows (map (\<lambda>t. \<lparr>row_id = todo_id t, row_task = formatTask (task t),
                                row_dueDate = formatDueDate (dueDate t),
                                row_status = formatStatus (completed t)\<rparr>) ts)\<rparr>)"

definition showAllTodos :: "UIManager \<Rightarrow> UIManager" where
  "showAllTodos u =
     (let (ts, m) = filterTodos ''all'' (todoManager u)
      in displayTodos ts (u\<lparr>todoManager := m\<rparr>))"

definition handleFilterTodos :: "string \<Rightarrow> UIManager \<Rightarrow> UIManager" where
  "handleFilterTodos status u =
     (let (filteredTodos, m) = filterTodos status (todoManager u)
      in displayTodos filteredTodos (u\<lparr>todoManager := m\<rparr>))"

definition refreshUI :: "env \<Rightarrow> UIManager \<Rightarrow> world \<Rightarrow> UIManager \<times> world" where
  "refreshUI e u w =
     (case fetchTodos e (todoManager u) w of
        (Inr ts, m, w') \<Rightarrow> (showAllTodos (u\<lparr>todoManager := m\<rparr>), w')
      | (Inl err, m, w') \<Rightarrow>
          (showAlertMessage ''Failed to connect to the backend server. Is it running?'' ''error''
             (u\<lparr>todoManager := m\<rparr>), w'))"

definition handleAddTodo :: "env \<Rightarrow> UIManager \<Rightarrow> world \<Rightarrow> UIManager \<times> world" where
  "handleAddTodo e u w =
     (let t = trim (taskInput u); dd = dateInput u
      in if t = [] then (showAlertMessage ''Please enter a task'' ''error'' u, w)
         else (case addTodo e t (Some dd) (todoManager u) w of
                 (Inr newTodo, m, w') \<Rightarrow>
                   (showAlertMessage ''Task added successfully'' ''success''
                      ((showAllTodos (u\<lparr>todoManager := m\<rparr>))\<lparr>taskInput := [], dateInput := []\<rparr>),
                    w')
               | (Inl err, m, w') \<Rightarrow>
                   (showAlertMessage ''Failed to add task. Please check your connection.'' ''error''
                      (u\<lparr>todoManager := m\<rparr>), w')))"

text \<open>
  Assigning to the \<open>value\<close> of an input converts the operand to a string. What the
  control then does with a string that is not a date depends on the page, which is not
  among the sources.
\<close>

definition DOMString :: "string option \<Rightarrow> string" where
  "DOMString v = (case v of None \<Rightarrow> ''undefined'' | Some s \<Rightarrow> s)"

definition check_icon :: string where
  "check_icon = ''<i class='' @ [CHR 0x27] @ ''bx bx-check bx-sm'' @ [CHR 0x27] @ ''></i>''"

text \<open>
  \<open>handleEditTodo\<close> fills the inputs from the cached record and replaces the add button
  by a clone without listeners, on which the confirm action is then the only listener.
\<close>

definition handleEditTodo :: "string \<Rightarrow> UIManager \<Rightarrow> UIManager" where
  "handleEditTodo i u =
     (case find (\<lambda>t. todo_id t = i) (todos (todoManager u)) of
        None \<Rightarrow> u
      | Some todo0 \<Rightarrow>
          u\<lparr>taskInput := task todo0,
            dateInput := (if dueDate todo0 = Some ''No due date'' then []
                          else DOMString (dueDate todo0)),
            addBtnHtml := check_icon,
            addBtnClick := [HandleUpdate i (addBtnHtml u)]\<rparr>)"

definition handleUpdate :: "env \<Rightarrow> string \<Rightarrow> string \<Rightarrow> UIManager \<Rightarrow> world \<Rightarrow> UIManager \<times> world" where
  "handleUpdate e i originalAddBtnHtml u w =
     (case editTodo e i (taskInput u) (todoManager u) w of
        (Inr updatedTodo, m, w') \<Rightarrow>
          (let u1 = showAlertMessage ''Todo updated successfully'' ''success''
                      (u\<lparr>todoManager := m, addBtnHtml := originalAddBtnHtml\<rparr>);
               u2 = (showAllTodos u1)\<lparr>taskInput := [], dateInput := []\<rparr>
           in (u2\<lparr>addBtnClick :=
                     remove1 (HandleUpdate i originalAddBtnHtml) (addBtnClick u2) @ [HandleAddTodo]\<rparr>,
               w'))
      | (Inl err, m, w') \<Rightarrow>
          (showAlertMessage ''Failed to update task. Please try again.'' ''error''
             (u\<lparr>todoManager := m\<rparr>), w'))"

definition handleToggleStatus :: "env \<Rightarrow> string \<Rightarrow> UIManager \<Rightarrow> world \<Rightarrow> UIManager \<times> world" where
  "handleToggleStatus e i u w =
     (case toggleTodoStatus e i (todoManager u) w of
        (Inr x, m, w') \<Rightarrow> (showAllTodos (u\<lparr>todoManager := m\<rparr>), w')
      | (Inl err, m, w') \<Rightarrow>
          (showAlertMessage ''Failed to update status. Please try again.'' ''error''
             (u\<lparr>todoManager := m\<rparr>), w'))"

subsection \<open>Example values\<close>

text \<open>
  Three identifiers, the record of the spec's example under the first, a second record,
  and the environments in which the store assigns these identifiers.
\<close>

abbreviation id1 :: string where
  "id1 \<equiv> ''65a1f0c2e4b0a1b2c3d4e5f1''"

abbreviation id2 :: string where
  "id2 \<equiv> ''65a1f0c2e4b0a1b2c3d4e5f2''"

abbreviation id3 :: string where
  "id3 \<equiv> ''65a1f0c2e4b0a1b2c3d4e5f3''"

abbreviation only_task :: "string \<Rightarrow> req_body" where
  "only_task t \<equiv> \<lparr>body_task = Some t, body_completed = None, body_dueDate = None\<rparr>"

abbreviation milk :: todo where
  "milk \<equiv> \<lparr>todo_id = id1, task = ''Buy milk'', dueDate = Some ''2024-01-01'',
            completed = False, createdAt = 10\<rparr>"

abbreviation bread :: todo where
  "bread \<equiv> \<lparr>todo_id = id2, task = ''Buy bread'', dueDate = Some ''No due date'',
             completed = True, createdAt = 20\<rparr>"

abbreviation env1 :: env where
  "env1 \<equiv> \<lparr>new_id = id1, now = 10, db_up = True, net_up = True\<rparr>"

abbreviation env2 :: env where
  "env2 \<equiv> \<lparr>new_id = id2, now = 20, db_up = True, net_up = True\<rparr>"

abbreviation only_completed :: "bool \<Rightarrow> req_body" where
  "only_completed c \<equiv> \<lparr>body_task = None, body_completed = Some c, body_dueDate = None\<rparr>"

abbreviation page :: "TodoManager \<Rightarrow> string \<Rightarrow> string \<Rightarrow> UIManager" where
  "page m t d \<equiv> \<lparr>todoManager = m, taskInput = t, dateInput = d, addBtnHtml = ''+'',
                  addBtnClick = [HandleAddTodo], todosListBody = No_task_found,
                  alertMessage = None\<rparr>"

section \<open>Properties of the store\<close>

lemma length_replace_doc: "length (replace_doc d ds) = length ds"
  by (induction ds) auto

lemma find_id_None: "i \<notin> todo_id ` set ds \<Longrightarrow> find (\<lambda>d. todo_id d = i) ds = None"
  by (induction ds) auto

lemma find_id_Some: "find (\<lambda>d. todo_id d = i) ds = Some d \<Longrightarrow> todo_id d = i \<and> d \<in> set ds"
  by (induction ds) (auto split: if_splits)

lemma remove_doc_absent: "find (\<lambda>d. todo_id d = i) ds = None \<Longrightarrow> remove_doc i ds = ds"
  by (induction ds) (auto split: if_splits)

lemma filter_replace_doc:
  "todo_id d = i \<Longrightarrow>
   filter (\<lambda>x. todo_id x \<noteq> i) (replace_doc d ds) = filter (\<lambda>x. todo_id x \<noteq> i) ds"
  by (induction ds) auto

lemma find_replace_doc:
  "find (\<lambda>x. todo_id x = i) ds = Some d0 \<Longrightarrow> todo_id d = i \<Longrightarrow>
   find (\<lambda>x. todo_id x = i) (replace_doc d ds) = Some d"
  by (induction ds) (auto split: if_splits)

subsection \<open>Casting identifiers\<close>

lemma castObjectId_examples:
  "castObjectId id1 = Some id1"
  "castObjectId id2 = Some id2"
  "castObjectId id3 = Some id3"
  "castObjectId ''65A1F0C2E4B0A1B2C3D4E5F1'' = Some id1"
  "castObjectId ''3'' = None"
  by (simp_all add: castObjectId_def is_hex_digit_def hex_lower_def)

lemma castObjectId_length: "castObjectId i = Some oid \<Longrightarrow> length i = 24 \<and> length oid = 24"
  by (auto simp: castObjectId_def split: if_splits)

subsection \<open>Partial update\<close>

text \<open>What the route does with an identifier that is none, and with an empty task.\<close>

lemma put_todos_id_malformed:
  "castObjectId i = None \<Longrightarrow> put_todos_id e i b ds = ((400, ErrMessage CastError), ds)"
  by (simp add: put_todos_id_def findById_def)

lemma put_todos_id_unavailable:
  "castObjectId i = Some oid \<Longrightarrow> \<not> db_up e \<Longrightarrow>
   put_todos_id e i b ds = ((400, ErrMessage StorageUnavailable), ds)"
  by (simp add: put_todos_id_def findById_def)

lemma put_todos_id_absent:
  "castObjectId i = Some oid \<Longrightarrow> db_up e \<Longrightarrow> oid \<notin> todo_id ` set ds \<Longrightarrow>
   put_todos_id e i b ds = ((404, Message ''Todo not found''), ds)"
  by (simp add: put_todos_id_def findById_def find_id_None)

lemma put_todos_id_empty_task:
  "castObjectId i = Some oid \<Longrightarrow> db_up e \<Longrightarrow> find (\<lambda>x. todo_id x = oid) ds = Some d \<Longrightarrow>
   body_task b = Some [] \<Longrightarrow>
   put_todos_id e i b ds = ((400, ErrMessage ValidationError), ds)"
  by (simp add: put_todos_id_def findById_def save_def required_def Let_def
        split: option.splits)

text \<open>
  Claim C2 says that for every existing identifier and every body the update changes
  exactly the fields present in the body. It does not for a body whose task is the empty
  string: the schema requires a task, \<open>save\<close> rejects the document, the route answers
  400 and the stored record keeps its task.
\<close>

theorem put_todos_id_empty_task_counterexample:
  "todo_id milk = id1 \<and> task milk = ''Buy milk''
   \<and> body_task (only_task []) = Some []
   \<and> put_todos_id env2 id1 (only_task []) [bread, milk]
       = ((400, ErrMessage ValidationError), [bread, milk])"
  by (simp add: put_todos_id_def findById_def save_def required_def castObjectId_examples)

text \<open>
  Claim C2, amended. Let the identifier be the one of a stored record, and let the record
  with the fields of the body written into it have a task that is not empty (so: the body
  has a task that is not empty, or it has none and the stored one is not empty, as it is
  for every record the store has accepted). Then \<open>PUT /api/todos/:id\<close> answers 200 with
  the stored record in which each field present in the body has the body's value and
  every other field (the identifier and the creation timestamp among them) is as before;
  with the body \<open>{completed: true}\<close> the record differs in the completed flag only. The
  new record takes the place of the old one in the store, and the documents with other
  identifiers are untouched. The store library is assumed to carry out its calls
  (\<open>db_up\<close>); otherwise the route answers 400 and changes nothing.
\<close>

theorem put_todos_id_changes_present_fields_only:
  assumes "db_up e"
    and "castObjectId i = Some oid"
    and "find (\<lambda>x. todo_id x = oid) ds = Some d"
    and "(case body_task b of None \<Rightarrow> task d | Some t \<Rightarrow> t) \<noteq> []"
  shows "\<exists>d'. put_todos_id e i b ds = ((200, Doc d'), replace_doc d' ds)
     \<and> task d' = (case body_task b of None \<Rightarrow> task d | Some t \<Rightarrow> t)
     \<and> completed d' = (case body_completed b of None \<Rightarrow> completed d | Some c \<Rightarrow> c)
     \<and> dueDate d' = (case body_dueDate b of None \<Rightarrow> dueDate d | Some x \<Rightarrow> Some x)
     \<and> todo_id d' = todo_id d \<and> createdAt d' = createdAt d
     \<and> (b = only_completed True \<longrightarrow> d' = d\<lparr>completed := True\<rparr>)
     \<and> find (\<lambda>x. todo_id x = oid) (replace_doc d' ds) = Some d'
     \<and> length (replace_doc d' ds) = length ds
     \<and> filter (\<lambda>x. todo_id x \<noteq> oid) (replace_doc d' ds) = filter (\<lambda>x. todo_id x \<noteq> oid) ds"
  using assms find_id_Some [OF assms(3)]
  by (auto simp: put_todos_id_def findById_def save_def required_def Let_def length_replace_doc
        filter_replace_doc find_replace_doc split: option.splits)

theorem put_todos_id_changes_present_fields_only_witness:
  "put_todos_id env2 id1 (only_completed True) [bread, milk]
     = ((200, Doc (milk\<lparr>completed := True\<rparr>)), [bread, milk\<lparr>completed := True\<rparr>])
   \<and> put_todos_id env2 ''65A1F0C2E4B0A1B2C3D4E5F1'' (only_task ''Buy oat milk'') [bread, milk]
     = ((200, Doc (milk\<lparr>task := ''Buy oat milk''\<rparr>)), [bread, milk\<lparr>task := ''Buy oat milk''\<rparr>])"
proof -
  have up: "db_up env2" by simp
  have found: "find (\<lambda>x. todo_id x = id1) [bread, milk] = Some milk" by simp
  have valid1: "(case body_task (only_completed True) of None \<Rightarrow> task milk | Some t \<Rightarrow> t) \<noteq> []"
    by simp
  have valid2: "(case body_task (only_task ''Buy oat milk'') of None \<Rightarrow> task milk | Some t \<Rightarrow> t) \<noteq> []"
    by simp
  from put_todos_id_changes_present_fields_only
         [OF up castObjectId_examples(1) found valid1]
  obtain d1 where
    r1: "put_todos_id env2 id1 (only_completed True) [bread, milk]
          = ((200, Doc d1), replace_doc d1 [bread, milk])"
    and d1: "d1 = milk\<lparr>completed := True\<rparr>"
    by blast
  from put_todos_id_changes_present_fields_only
         [OF up castObjectId_examples(4) found valid2]
  obtain d2 where
    r2: "put_todos_id env2 ''65A1F0C2E4B0A1B2C3D4E5F1'' (only_task ''Buy oat milk'') [bread, milk]
          = ((200, Doc d2), replace_doc d2 [bread, milk])"
    and t2: "task d2 = ''Buy oat milk''"
    and c2: "completed d2 = completed milk"
    and dd2: "dueDate d2 = dueDate milk"
    and i2: "todo_id d2 = todo_id milk"
    and ca2: "createdAt d2 = createdAt milk"
    by auto
  from t2 c2 dd2 i2 ca2 have d2: "d2 = milk\<lparr>task := ''Buy oat milk''\<rparr>"
    by (cases d2) simp
  show ?thesis unfolding r1 d1 r2 d2 by simp
qed

subsection \<open>Deleting\<close>

text \<open>
  Claim C4 says that for every identifier that no stored record has,
  \<open>DELETE /api/todos/:id\<close> answers 404. It does not for a string that is no object
  identifier, such as "3": the query is rejected by the cast, and the route answers 500
  through its \<open>catch\<close>. The store is as it was.
\<close>

theorem delete_todos_id_malformed_counterexample:
  "todo_id bread \<noteq> ''3'' \<and> todo_id milk \<noteq> ''3''
   \<and> delete_todos_id env1 ''3'' [bread, milk] = ((500, ErrMessage CastError), [bread, milk])"
  by (simp add: delete_todos_id_def findByIdAndDelete_def castObjectId_examples)

text \<open>
  Claim C4, amended. For an object identifier that no stored record has,
  \<open>DELETE /api/todos/:id\<close> leaves the store as it is (so its size too) and answers 404
  with "Todo not found" (500 when the store library rejects the call, the store being as
  it is as well). For a string that is no object identifier, the route answers 500 and
  leaves the store as it is.
\<close>

theorem delete_todos_id_absent:
  "(castObjectId i = None \<longrightarrow>
      delete_todos_id e i ds = ((500, ErrMessage CastError), ds))
   \<and> (castObjectId i = Some oid \<and> oid \<notin> todo_id ` set ds \<longrightarrow>
        snd (delete_todos_id e i ds) = ds
        \<and> length (snd (delete_todos_id e i ds)) = length ds
        \<and> fst (delete_todos_id e i ds) =
            (if db_up e then (404, Message ''Todo not found'')
             else (500, ErrMessage StorageUnavailable)))"
proof -
  have "castObjectId i = Some oid \<Longrightarrow> oid \<notin> todo_id ` set ds \<Longrightarrow>
        snd (delete_todos_id e i ds) = ds
        \<and> fst (delete_todos_id e i ds) =
            (if db_up e then (404, Message ''Todo not found'')
             else (500, ErrMessage StorageUnavailable))"
    using find_id_None [of oid ds] remove_doc_absent [of oid ds]
    by (simp add: delete_todos_id_def findByIdAndDelete_def)
  moreover have "castObjectId i = None \<Longrightarrow>
      delete_todos_id e i ds = ((500, ErrMessage CastError), ds)"
    by (simp add: delete_todos_id_def findByIdAndDelete_def)
  ultimately show ?thesis by simp
qed

theorem delete_todos_id_absent_witness:
  "delete_todos_id env1 id3 [bread, milk] = ((404, Message ''Todo not found''), [bread, milk])
   \<and> delete_todos_id env1 ''x'' [bread, milk] = ((500, ErrMessage CastError), [bread, milk])"
proof -
  have absent: "castObjectId id3 = Some id3 \<and> id3 \<notin> todo_id ` set [bread, milk]"
    by (simp add: castObjectId_examples)
  have malformed: "castObjectId ''x'' = None"
    by (simp add: castObjectId_def)
  from delete_todos_id_absent [of id3 env1 "[bread, milk]" id3] absent
  have "snd (delete_todos_id env1 id3 [bread, milk]) = [bread, milk]"
    and "fst (delete_todos_id env1 id3 [bread, milk]) = (404, Message ''Todo not found'')"
    by simp_all
  then have a: "delete_todos_id env1 id3 [bread, milk]
                  = ((404, Message ''Todo not found''), [bread, milk])"
    by (simp add: prod_eq_iff)
  from delete_todos_id_absent [of "''x''" env1 "[bread, milk]" id3] malformed
  have b: "delete_todos_id env1 ''x'' [bread, milk] = ((500, ErrMessage CastError), [bread, milk])"
    by blast
  from a b show ?thesis by blast
qed

text \<open>A stored record is found under its identifier in either case of the digits.\<close>

lemma delete_todos_id_present:
  "delete_todos_id env1 ''65A1F0C2E4B0A1B2C3D4E5F1'' [bread, milk]
     = ((200, Message ''Todo deleted''), [bread])"
  by (simp add: delete_todos_id_def findByIdAndDelete_def castObjectId_examples)

text \<open>
  Claim C5. Whatever the store holds, \<open>DELETE /api/todos\<close> empties it and answers 200;
  listing then gives the empty sequence; deleting everything once more answers 200 again
  and the store stays empty. The store library is assumed to carry out the three calls.
\<close>

theorem delete_todos_then_list_is_empty:
  assumes "db_up e1" and "db_up e2" and "db_up e3"
  shows "delete_todos e1 ds = ((200, Message ''All todos deleted''), [])
     \<and> get_todos e2 (snd (delete_todos e1 ds)) = ((200, Todos []), [])
     \<and> delete_todos e3 (snd (delete_todos e1 ds)) = ((200, Message ''All todos deleted''), [])"
  using assms by (simp add: delete_todos_def deleteMany_def get_todos_def find_sorted_def)

theorem delete_todos_then_list_is_empty_witness:
  "serve [(env1, DELETE_todos), (env2, GET_todos), (env2, DELETE_todos)] [bread, milk]
     = ([(200, Message ''All todos deleted''), (200, Todos []),
         (200, Message ''All todos deleted'')], [])"
proof -
  have up1: "db_up env1" and up2: "db_up env2" by simp_all
  note h = delete_todos_then_list_is_empty [OF up1 up2 up2, of "[bread, milk]"]
  from h have a: "delete_todos env1 [bread, milk] = ((200, Message ''All todos deleted''), [])"
    by blast
  from h a have b: "get_todos env2 [] = ((200, Todos []), [])"
    and c: "delete_todos env2 [] = ((200, Message ''All todos deleted''), [])"
    by simp_all
  show ?thesis by (simp add: a b c)
qed

subsection \<open>Listing\<close>

lemma handle_length:
  "\<not> is_delete r \<Longrightarrow>
   length (snd (handle e r ds)) = length ds + (if fst (fst (handle e r ds)) = 201 then 1 else 0)"
  by (cases r)
     (auto simp: get_ping_def get_todos_def find_sorted_def post_todos_def save_new_def
        put_todos_id_def findById_def save_def required_def Let_def length_replace_doc
        split: option.splits)

text \<open>Only a successful insert is answered with 201.\<close>

lemma handle_201:
  "fst (fst (handle e r ds)) = 201 \<longleftrightarrow>
     (\<exists>b t. r = POST_todos b \<and> body_task b = Some t \<and> t \<noteq> [] \<and> db_up e)"
  by (cases r)
     (auto simp: get_ping_def get_todos_def find_sorted_def post_todos_def save_new_def
        put_todos_id_def findById_def save_def delete_todos_id_def findByIdAndDelete_def
        delete_todos_def deleteMany_def required_def Let_def
        split: option.splits)

lemma serve_length:
  "\<forall>(e, r) \<in> set rs. \<not> is_delete r \<Longrightarrow> serve rs ds = (resps, ds') \<Longrightarrow>
   length ds' = length ds + length (filter (\<lambda>resp. fst resp = 201) resps)"
proof (induction rs arbitrary: ds resps ds')
  case Nil
  then show ?case by simp
next
  case (Cons p rs)
  obtain e r where p: "p = (e, r)" by (cases p)
  obtain resp ds1 where h: "handle e r ds = (resp, ds1)" by (cases "handle e r ds")
  obtain resps1 ds2 where s: "serve rs ds1 = (resps1, ds2)" by (cases "serve rs ds1")
  from Cons.prems(2) p h s have eq: "resps = resp # resps1" "ds' = ds2" by auto
  from Cons.prems(1) p have nd: "\<not> is_delete r"
    and rest: "\<forall>(e, r) \<in> set rs. \<not> is_delete r"
    by auto
  from handle_length [OF nd, of e ds] h
  have l1: "length ds1 = length ds + (if fst resp = 201 then 1 else 0)" by simp
  from Cons.IH [OF rest s]
  have "length ds2 = length ds1 + length (filter (\<lambda>resp. fst resp = 201) resps1)" .
  with l1 eq show ?case by simp
qed

lemma sort_key_newest_first:
  "sorted_wrt (\<lambda>a b. createdAt b \<le> createdAt a) (sort_key (\<lambda>d. - createdAt d) ds)"
proof -
  have "sorted (map (\<lambda>d. - createdAt d) (sort_key (\<lambda>d. - createdAt d) ds))"
    by (rule sorted_sort_key)
  then show ?thesis by (simp add: sorted_map)
qed

text \<open>
  Claim C6. Start from the empty store and serve any sequence of requests without a
  delete. A successful insert is the request answered with 201 (\<open>handle_201\<close>); let N
  be their number. Then \<open>GET /api/todos\<close> answers 200 with N records, which are the
  stored records, each at least as new as the ones after it. The store library is assumed
  to carry out the listing.
\<close>

theorem get_todos_after_inserts:
  assumes "\<forall>(e, r) \<in> set rs. \<not> is_delete r"
    and "serve rs [] = (resps, ds)"
    and "db_up e"
  shows "\<exists>ts. get_todos e ds = ((200, Todos ts), ds)
     \<and> length ts = length (filter (\<lambda>resp. fst resp = 201) resps)
     \<and> sorted_wrt (\<lambda>a b. createdAt b \<le> createdAt a) ts
     \<and> mset ts = mset ds"
  using serve_length [OF assms(1,2)] assms(3) sort_key_newest_first [of ds]
  by (simp add: get_todos_def find_sorted_def)

theorem get_todos_after_inserts_witness:
  "get_todos env2
     (snd (serve [(env1, POST_todos \<lparr>body_task = Some ''Buy milk'', body_completed = None,
                                      body_dueDate = Some ''2024-01-01''\<rparr>),
                  (env2, POST_todos \<lparr>body_task = Some ''Buy bread'', body_completed = None,
                                      body_dueDate = Some ''No due date''\<rparr>),
                  (env2, PUT_todos_id id2 (only_completed True))] []))
   = ((200, Todos [bread, milk]), [milk, bread])"
proof -
  let ?rs = "[(env1, POST_todos \<lparr>body_task = Some ''Buy milk'', body_completed = None,
                                  body_dueDate = Some ''2024-01-01''\<rparr>),
              (env2, POST_todos \<lparr>body_task = Some ''Buy bread'', body_completed = None,
                                  body_dueDate = Some ''No due date''\<rparr>),
              (env2, PUT_todos_id id2 (only_completed True))]"
  have nodel: "\<forall>(e, r) \<in> set ?rs. \<not> is_delete r" by simp
  have run: "serve ?rs [] = ([(201, Doc milk), (201, Doc (bread\<lparr>completed := False\<rparr>)),
                              (200, Doc bread)], [milk, bread])"
    by (simp add: post_todos_def save_new_def put_todos_id_def findById_def save_def
          required_def castObjectId_examples Let_def)
  have up: "db_up env2" by simp
  from get_todos_after_inserts [OF nodel run up]
  obtain ts where g: "get_todos env2 [milk, bread] = ((200, Todos ts), [milk, bread])"
    and len: "length ts = 2"
    and srt: "sorted_wrt (\<lambda>a b. createdAt b \<le> createdAt a) ts"
    and ms: "mset ts = mset [milk, bread]"
    by auto
  have "get_todos env2 [milk, bread] = ((200, Todos [bread, milk]), [milk, bread])"
    by (simp add: get_todos_def find_sorted_def)
  with run show ?thesis by simp
qed

section \<open>Properties of the client\<close>

subsection \<open>Adding a task\<close>

text \<open>What \<open>addTodo\<close> sends, whatever comes back.\<close>

lemma addTodo_requests:
  "requests (snd (snd (addTodo e t dd m w))) =
     requests w @ [POST_todos \<lparr>body_task = Some (formatTask t), body_completed = None,
                               body_dueDate = Some (formatDueDate dd)\<rparr>]"
  by (simp add: addTodo_def fetch_def Let_def post_todos_def save_new_def ok_def
        split: prod.splits sum.splits payload.splits)

lemma formatTask_empty: "formatTask t = [] \<longleftrightarrow> t = []"
  by (auto simp: formatTask_def)

text \<open>What \<open>addTodo\<close> does when the request arrives and the store accepts it.\<close>

lemma addTodo_success:
  assumes "net_up e" and "db_up e" and "t \<noteq> []"
  shows "addTodo e t dd m w =
     (let d = \<lparr>todo_id = new_id e, task = formatTask t, dueDate = Some (formatDueDate dd),
               completed = False, createdAt = now e\<rparr>
      in (Inr d, m\<lparr>todos := d # todos m\<rparr>,
          w\<lparr>requests := requests w @ [POST_todos \<lparr>body_task = Some (formatTask t),
               body_completed = None, body_dueDate = Some (formatDueDate dd)\<rparr>],
            server := server w @ [d]\<rparr>))"
  using assms
  by (simp add: addTodo_def fetch_def Let_def post_todos_def save_new_def required_def ok_def
        formatTask_empty)

text \<open>An empty task is rejected by the store: nothing is stored and nothing is cached.\<close>

lemma addTodo_empty_task:
  assumes "net_up e"
  shows "addTodo e [] dd m w =
     (Inl (Failure ''Failed to add task''), m,
      w\<lparr>requests := requests w @ [POST_todos \<lparr>body_task = Some [], body_completed = None,
           body_dueDate = Some (formatDueDate dd)\<rparr>]\<rparr>)"
  using assms
  by (simp add: addTodo_def fetch_def Let_def post_todos_def save_new_def required_def ok_def
        formatTask_def)

text \<open>
  Claim C1 says that the store and the cache hold the submitted task text in full, the
  truncation to 14 characters being a matter of the list view. \<open>addTodo\<close> however
  builds the request body with \<open>formatTask\<close>, so a task of more than 14 characters
  reaches the store cut to 14 characters and three dots: adding
  "Buy milk and eggs today" stores and caches "Buy milk and e...". The list view
  (\<open>displayTodos\<close>) truncates by itself, and \<open>editTodo\<close> sends the text as it is.
\<close>

theorem addTodo_stores_truncated_task:
  "map task (server (snd (snd (addTodo env1 ''Buy milk and eggs today'' (Some ''2024-01-01'')
       \<lparr>todos = []\<rparr> \<lparr>server = [], requests = []\<rparr>)))) = [''Buy milk and e...'']
   \<and> map task (todos (fst (snd (addTodo env1 ''Buy milk and eggs today'' (Some ''2024-01-01'')
       \<lparr>todos = []\<rparr> \<lparr>server = [], requests = []\<rparr>)))) = [''Buy milk and e...'']
   \<and> ''Buy milk and e...'' \<noteq> ''Buy milk and eggs today''"
  by (simp add: addTodo_def fetch_def post_todos_def save_new_def required_def ok_def
        formatTask_def formatDueDate_def Let_def)

text \<open>The sibling path: the same text sent by \<open>editTodo\<close> is stored in full.\<close>

lemma editTodo_stores_full_task:
  "map task (server (snd (snd (editTodo env1 id1 ''Buy milk and eggs today''
       \<lparr>todos = [milk]\<rparr> \<lparr>server = [milk], requests = []\<rparr>)))) = [''Buy milk and eggs today'']
   \<and> map task (todos (fst (snd (editTodo env1 id1 ''Buy milk and eggs today''
       \<lparr>todos = [milk]\<rparr> \<lparr>server = [milk], requests = []\<rparr>)))) = [''Buy milk and eggs today'']"
  by (simp add: editTodo_def fetch_def put_todos_id_def findById_def save_def required_def
        castObjectId_examples ok_def Let_def)

text \<open>The list view truncates what it shows and leaves the cache alone.\<close>

lemma displayTodos_truncates_view_only:
  "todoManager (displayTodos ts u) = todoManager u"
  "ts \<noteq> [] \<Longrightarrow> todosListBody (displayTodos ts u) =
     Rows (map (\<lambda>t. \<lparr>row_id = todo_id t, row_task = formatTask (task t),
                       row_dueDate = formatDueDate (dueDate t),
                       row_status = formatStatus (completed t)\<rparr>) ts)"
  by (simp_all add: displayTodos_def)

text \<open>
  Claim C8. When \<open>addTodo\<close> is called without a due date (\<open>undefined\<close> or the empty
  string), the request body carries the due date "No due date"; when the request
  arrives and the store accepts it (the task is not empty), the stored and the cached
  record have that string as their due date. \<open>handleEditTodo\<close>, on a cached record,
  leaves the cache alone and fills the inputs from the record: the task input with its
  task, and the date input with the empty string when the due date is "No due date" and
  with the due date itself when it is another string.
\<close>

theorem addTodo_without_due_date:
  assumes "dd = None \<or> dd = Some []"
  shows "requests (snd (snd (addTodo e t dd m w))) =
       requests w @ [POST_todos \<lparr>body_task = Some (formatTask t), body_completed = None,
                                 body_dueDate = Some ''No due date''\<rparr>]
     \<and> (net_up e \<and> db_up e \<and> t \<noteq> [] \<longrightarrow>
          (\<exists>d. fst (addTodo e t dd m w) = Inr d \<and> dueDate d = Some ''No due date''
             \<and> server (snd (snd (addTodo e t dd m w))) = server w @ [d]
             \<and> todos (fst (snd (addTodo e t dd m w))) = d # todos m))
     \<and> (find (\<lambda>x. todo_id x = i) (todos (todoManager u)) = Some d0 \<longrightarrow>
          taskInput (handleEditTodo i u) = task d0
          \<and> todoManager (handleEditTodo i u) = todoManager u
          \<and> (dueDate d0 = Some ''No due date'' \<longrightarrow> dateInput (handleEditTodo i u) = [])
          \<and> (dueDate d0 = Some s \<and> s \<noteq> ''No due date'' \<longrightarrow>
               dateInput (handleEditTodo i u) = s))"
proof -
  from assms have fd: "formatDueDate dd = ''No due date''"
    by (auto simp: formatDueDate_def)
  have add: "net_up e \<and> db_up e \<and> t \<noteq> [] \<longrightarrow>
          (\<exists>d. fst (addTodo e t dd m w) = Inr d \<and> dueDate d = Some ''No due date''
             \<and> server (snd (snd (addTodo e t dd m w))) = server w @ [d]
             \<and> todos (fst (snd (addTodo e t dd m w))) = d # todos m)"
    using addTodo_success [of e t dd m w] fd by (auto simp: Let_def)
  have edit: "find (\<lambda>x. todo_id x = i) (todos (todoManager u)) = Some d0 \<longrightarrow>
          taskInput (handleEditTodo i u) = task d0
          \<and> todoManager (handleEditTodo i u) = todoManager u
          \<and> (dueDate d0 = Some ''No due date'' \<longrightarrow> dateInput (handleEditTodo i u) = [])
          \<and> (dueDate d0 = Some s \<and> s \<noteq> ''No due date'' \<longrightarrow>
               dateInput (handleEditTodo i u) = s)"
    by (simp add: handleEditTodo_def DOMString_def)
  from addTodo_requests [of e t dd m w] fd add edit show ?thesis by simp
qed

theorem addTodo_without_due_date_witness:
  "addTodo env2 ''Buy bread'' (Some []) \<lparr>todos = [milk]\<rparr> \<lparr>server = [milk], requests = []\<rparr>
     = (Inr (bread\<lparr>completed := False\<rparr>), \<lparr>todos = [bread\<lparr>completed := False\<rparr>, milk]\<rparr>,
        \<lparr>server = [milk, bread\<lparr>completed := False\<rparr>],
         requests = [POST_todos \<lparr>body_task = Some ''Buy bread'', body_completed = None,
                                  body_dueDate = Some ''No due date''\<rparr>]\<rparr>)
   \<and> taskInput (handleEditTodo id2 (page \<lparr>todos = [bread, milk]\<rparr> ''x'' ''2030-12-31'')) = ''Buy bread''
   \<and> dateInput (handleEditTodo id2 (page \<lparr>todos = [bread, milk]\<rparr> ''x'' ''2030-12-31'')) = []
   \<and> taskInput (handleEditTodo id1 (page \<lparr>todos = [bread, milk]\<rparr> ''x'' ''2030-12-31'')) = ''Buy milk''
   \<and> dateInput (handleEditTodo id1 (page \<lparr>todos = [bread, milk]\<rparr> ''x'' ''2030-12-31''))
       = ''2024-01-01''"
proof -
  let ?pg = "page \<lparr>todos = [bread, milk]\<rparr> ''x'' ''2030-12-31''"
  let ?m = "\<lparr>todos = [milk]\<rparr>"
  let ?w = "\<lparr>server = [milk], requests = []\<rparr>"
  have dd: "Some [] = None \<or> Some [] = Some ([] :: string)" by simp
  have up: "net_up env2 \<and> db_up env2 \<and> ''Buy bread'' \<noteq> []" by simp
  have cached2: "find (\<lambda>x. todo_id x = id2) (todos (todoManager ?pg)) = Some bread" by simp
  have cached1: "find (\<lambda>x. todo_id x = id1) (todos (todoManager ?pg)) = Some milk" by simp
  have sentinel: "dueDate bread = Some ''No due date''" by simp
  have dated: "dueDate milk = Some ''2024-01-01'' \<and> ''2024-01-01'' \<noteq> ''No due date''" by simp
  from addTodo_without_due_date [OF dd, of env2 "''Buy bread''" ?m ?w id2 ?pg bread "''x''"]
       up cached2 sentinel
  have e2: "taskInput (handleEditTodo id2 ?pg) = task bread"
    and d2: "dateInput (handleEditTodo id2 ?pg) = []"
    and stored: "\<exists>d. fst (addTodo env2 ''Buy bread'' (Some []) ?m ?w) = Inr d
                   \<and> dueDate d = Some ''No due date''"
    by blast+
  from addTodo_without_due_date [OF dd, of env2 "''Buy bread''" ?m ?w id1 ?pg milk "''2024-01-01''"]
       cached1 dated
  have e1: "taskInput (handleEditTodo id1 ?pg) = task milk"
    and d1: "dateInput (handleEditTodo id1 ?pg) = ''2024-01-01''"
    by blast+
  have add: "addTodo env2 ''Buy bread'' (Some []) ?m ?w
     = (Inr (bread\<lparr>completed := False\<rparr>), \<lparr>todos = [bread\<lparr>completed := False\<rparr>, milk]\<rparr>,
        \<lparr>server = [milk, bread\<lparr>completed := False\<rparr>],
         requests = [POST_todos \<lparr>body_task = Some ''Buy bread'', body_completed = None,
                                  body_dueDate = Some ''No due date''\<rparr>]\<rparr>)"
    by (simp add: addTodo_def fetch_def post_todos_def save_new_def required_def ok_def
          formatTask_def formatDueDate_def Let_def)
  from add e2 d2 e1 d1 show ?thesis by simp
qed

text \<open>For an identifier that is not cached, \<open>handleEditTodo\<close> changes nothing.\<close>

lemma handleEditTodo_unknown_id:
  "i \<notin> todo_id ` set (todos (todoManager u)) \<Longrightarrow> handleEditTodo i u = u"
  by (simp add: handleEditTodo_def find_id_None)

subsection \<open>Submitting the form\<close>

lemma todoManager_showAllTodos: "todoManager (showAllTodos u) = todoManager u"
  by (simp add: showAllTodos_def filterTodos_def displayTodos_def)

text \<open>
  Claim C7. When the task input trims to the empty string, \<open>handleAddTodo\<close> changes
  nothing but the alert, which becomes the error "Please enter a task": no request is
  sent, and the cache and the store are as before. Otherwise \<open>addTodo\<close> is called with
  the trimmed text and the value of the date input: the manager and the world after the
  handler are the ones \<open>addTodo\<close> leaves, and one \<open>POST\<close> request has been sent.
\<close>

theorem handleAddTodo_validates_task:
  "(trim (taskInput u) = [] \<longrightarrow>
      handleAddTodo e u w = (u\<lparr>alertMessage := Some (''Please enter a task'', ''error'')\<rparr>, w))
   \<and> (trim (taskInput u) \<noteq> [] \<longrightarrow>
        todoManager (fst (handleAddTodo e u w)) =
          fst (snd (addTodo e (trim (taskInput u)) (Some (dateInput u)) (todoManager u) w))
        \<and> snd (handleAddTodo e u w) =
          snd (snd (addTodo e (trim (taskInput u)) (Some (dateInput u)) (todoManager u) w))
        \<and> requests (snd (handleAddTodo e u w)) =
          requests w @ [POST_todos \<lparr>body_task = Some (formatTask (trim (taskInput u))),
                                    body_completed = None,
                                    body_dueDate = Some (formatDueDate (Some (dateInput u)))\<rparr>])"
proof -
  have "trim (taskInput u) \<noteq> [] \<Longrightarrow>
        todoManager (fst (handleAddTodo e u w)) =
          fst (snd (addTodo e (trim (taskInput u)) (Some (dateInput u)) (todoManager u) w))
        \<and> snd (handleAddTodo e u w) =
          snd (snd (addTodo e (trim (taskInput u)) (Some (dateInput u)) (todoManager u) w))"
    by (auto simp: handleAddTodo_def showAlertMessage_def Let_def todoManager_showAllTodos
          split: prod.splits sum.splits)
  moreover have "trim (taskInput u) = [] \<Longrightarrow>
      handleAddTodo e u w = (u\<lparr>alertMessage := Some (''Please enter a task'', ''error'')\<rparr>, w)"
    by (simp add: handleAddTodo_def showAlertMessage_def Let_def)
  ultimately show ?thesis
    using addTodo_requests [of e "trim (taskInput u)" "Some (dateInput u)" "todoManager u" w]
    by simp
qed

theorem handleAddTodo_validates_task_witness:
  "handleAddTodo env1 (page \<lparr>todos = []\<rparr> ''   '' ''2024-01-01'') \<lparr>server = [], requests = []\<rparr>
     = ((page \<lparr>todos = []\<rparr> ''   '' ''2024-01-01'')
          \<lparr>alertMessage := Some (''Please enter a task'', ''error'')\<rparr>,
        \<lparr>server = [], requests = []\<rparr>)
   \<and> snd (handleAddTodo env1 (page \<lparr>todos = []\<rparr> '' Buy milk  '' ''2024-01-01'')
            \<lparr>server = [], requests = []\<rparr>)
     = \<lparr>server = [milk],
        requests = [POST_todos \<lparr>body_task = Some ''Buy milk'', body_completed = None,
                                 body_dueDate = Some ''2024-01-01''\<rparr>]\<rparr>
   \<and> todoManager (fst (handleAddTodo env1 (page \<lparr>todos = []\<rparr> '' Buy milk  '' ''2024-01-01'')
            \<lparr>server = [], requests = []\<rparr>)) = \<lparr>todos = [milk]\<rparr>"
proof -
  have blank: "trim (taskInput (page \<lparr>todos = []\<rparr> ''   '' ''2024-01-01'')) = []"
    by (simp add: trim_def is_space_def)
  have nonblank: "trim (taskInput (page \<lparr>todos = []\<rparr> '' Buy milk  '' ''2024-01-01'')) = ''Buy milk''"
    by (simp add: trim_def is_space_def)
  have add: "addTodo env1 ''Buy milk'' (Some ''2024-01-01'') \<lparr>todos = []\<rparr>
               \<lparr>server = [], requests = []\<rparr>
     = (Inr milk, \<lparr>todos = [milk]\<rparr>,
        \<lparr>server = [milk],
         requests = [POST_todos \<lparr>body_task = Some ''Buy milk'', body_completed = None,
                                  body_dueDate = Some ''2024-01-01''\<rparr>]\<rparr>)"
    by (simp add: addTodo_def fetch_def post_todos_def save_new_def required_def ok_def
          formatTask_def formatDueDate_def Let_def)
  from handleAddTodo_validates_task
         [of "page \<lparr>todos = []\<rparr> ''   '' ''2024-01-01''" env1 "\<lparr>server = [], requests = []\<rparr>"]
       blank
  have a: "handleAddTodo env1 (page \<lparr>todos = []\<rparr> ''   '' ''2024-01-01'')
             \<lparr>server = [], requests = []\<rparr>
     = ((page \<lparr>todos = []\<rparr> ''   '' ''2024-01-01'')
          \<lparr>alertMessage := Some (''Please enter a task'', ''error'')\<rparr>,
        \<lparr>server = [], requests = []\<rparr>)"
    by blast
  from handleAddTodo_validates_task
         [of "page \<lparr>todos = []\<rparr> '' Buy milk  '' ''2024-01-01''" env1
             "\<lparr>server = [], requests = []\<rparr>"]
       nonblank add
  have b: "snd (handleAddTodo env1 (page \<lparr>todos = []\<rparr> '' Buy milk  '' ''2024-01-01'')
            \<lparr>server = [], requests = []\<rparr>)
     = \<lparr>server = [milk],
        requests = [POST_todos \<lparr>body_task = Some ''Buy milk'', body_completed = None,
                                 body_dueDate = Some ''2024-01-01''\<rparr>]\<rparr>"
    and c: "todoManager (fst (handleAddTodo env1 (page \<lparr>todos = []\<rparr> '' Buy milk  '' ''2024-01-01'')
            \<lparr>server = [], requests = []\<rparr>)) = \<lparr>todos = [milk]\<rparr>"
    by simp_all
  from a b c show ?thesis by blast
qed

subsection \<open>Filtering\<close>

text \<open>
  Claim C3. For every cache, the view for "pending" holds the cached records that are
  not completed and the view for "completed" the ones that are, each with the number of
  occurrences it has in the cache and in the cache's order (a subsequence of the cache);
  the manager after \<open>filterTodos\<close> is the manager before it, for every status, and the
  filter handler of the page leaves the manager alone as well.
\<close>

theorem filterTodos_pending_completed:
  "mset (fst (filterTodos ''pending'' m)) = filter_mset (\<lambda>t. \<not> completed t) (mset (todos m))
   \<and> subseq (fst (filterTodos ''pending'' m)) (todos m)
   \<and> mset (fst (filterTodos ''completed'' m)) = filter_mset (\<lambda>t. completed t) (mset (todos m))
   \<and> subseq (fst (filterTodos ''completed'' m)) (todos m)
   \<and> snd (filterTodos status m) = m
   \<and> todoManager (handleFilterTodos status u) = todoManager u"
  by (simp add: filterTodos_def handleFilterTodos_def displayTodos_def)

theorem filterTodos_pending_completed_witness:
  "fst (filterTodos ''pending'' \<lparr>todos = [bread, milk, bread]\<rparr>) = [milk]
   \<and> fst (filterTodos ''completed'' \<lparr>todos = [bread, milk, bread]\<rparr>) = [bread, bread]
   \<and> snd (filterTodos ''pending'' \<lparr>todos = [bread, milk, bread]\<rparr>) = \<lparr>todos = [bread, milk, bread]\<rparr>"
  using filterTodos_pending_completed [of "\<lparr>todos = [bread, milk, bread]\<rparr>" "''pending''"]
  by (simp add: filterTodos_def)

text \<open>
  Claim C9. For a status other than "all", "pending" and "completed", the view is empty,
  whatever the cache holds.
\<close>

theorem filterTodos_unknown_status:
  assumes "status \<notin> {''all'', ''pending'', ''completed''}"
  shows "fst (filterTodos status m) = []"
  using assms by (simp add: filterTodos_def)

theorem filterTodos_unknown_status_witness:
  "''done'' \<notin> {''all'', ''pending'', ''completed''}
   \<and> fst (filterTodos ''done'' \<lparr>todos = [bread, milk]\<rparr>) = []"
proof -
  have other: "''done'' \<notin> {''all'', ''pending'', ''completed''}" by simp
  from other filterTodos_unknown_status [OF other, of "\<lparr>todos = [bread, milk]\<rparr>"]
  show ?thesis by blast
qed

subsection \<open>Toggling\<close>

text \<open>
  Claim C10. For an identifier that no cached record has, \<open>toggleTodoStatus\<close> resolves
  (no failure), the manager and its cache are as before, and the world is as before: no
  request has been sent and the store is untouched.
\<close>

theorem toggleTodoStatus_unknown_id:
  assumes "i \<notin> todo_id ` set (todos m)"
  shows "toggleTodoStatus e i m w = (Inr (), m, w)"
  using find_id_None [OF assms] by (simp add: toggleTodoStatus_def)

theorem toggleTodoStatus_unknown_id_witness:
  "''3'' \<notin> todo_id ` set (todos \<lparr>todos = [bread, milk]\<rparr>)
   \<and> toggleTodoStatus env1 ''3'' \<lparr>todos = [bread, milk]\<rparr> \<lparr>server = [milk, bread], requests = []\<rparr>
     = (Inr (), \<lparr>todos = [bread, milk]\<rparr>, \<lparr>server = [milk, bread], requests = []\<rparr>)"
proof -
  have absent: "''3'' \<notin> todo_id ` set (todos \<lparr>todos = [bread, milk]\<rparr>)" by simp
  from absent toggleTodoStatus_unknown_id [OF absent] show ?thesis by blast
qed

text \<open>For a cached identifier the method does send its request.\<close>

lemma toggleTodoStatus_known_id:
  "toggleTodoStatus env1 id1 \<lparr>todos = [bread, milk]\<rparr> \<lparr>server = [milk, bread], requests = []\<rparr>
     = (Inr (), \<lparr>todos = [bread, milk\<lparr>completed := True\<rparr>]\<rparr>,
        \<lparr>server = [milk\<lparr>completed := True\<rparr>, bread],
         requests = [PUT_todos_id id1 (only_completed True)]\<rparr>)"
  by (simp add: toggleTodoStatus_def fetch_def put_todos_id_def findById_def save_def
        required_def castObjectId_examples ok_def Let_def)

subsection \<open>Responses the client can read\<close>

text \<open>
  \<open>UnexpectedBody\<close> stands for a successful response whose JSON has not the shape the
  method reads. The routes send none, so the methods never end with it.
\<close>

lemma addTodo_reads_body: "fst (addTodo e t dd m w) \<noteq> Inl UnexpectedBody"
  by (simp add: addTodo_def fetch_def Let_def post_todos_def save_new_def required_def ok_def
        split: option.splits)

lemma fetchTodos_reads_body: "fst (fetchTodos e m w) \<noteq> Inl UnexpectedBody"
  by (simp add: fetchTodos_def fetch_def Let_def get_todos_def find_sorted_def ok_def)

lemma editTodo_reads_body: "fst (editTodo e i t m w) \<noteq> Inl UnexpectedBody"
  by (simp add: editTodo_def fetch_def Let_def put_todos_id_def findById_def save_def
        required_def ok_def split: option.splits)

lemma toggleTodoStatus_reads_body: "fst (toggleTodoStatus e i m w) \<noteq> Inl UnexpectedBody"
  by (simp add: toggleTodoStatus_def fetch_def Let_def put_todos_id_def findById_def save_def
        required_def ok_def split: option.splits)

end
